theory Spec2Isabelle
  imports Main "HOL-Library.Char_ord" "HOL-Library.List_Lexorder"
begin

section \<open>Go values read by the parser\<close>

text \<open>
  The parser package (parser.go) turns the JSON documents written by the Solidity compiler
  into \<open>Contract\<close> values. Strings are \<open>string\<close>, Go's \<open>int\<close> fields are only copied
  and are \<open>int\<close>, slices are lists (a nil slice is the empty list), pointers are
  \<open>option\<close> (\<open>None\<close> is nil).

  A \<open>float64\<close> is only ever printed by the parser (\<open>fmt.Sprintf("%v", v)\<close>), so it is
  carried as that text: the shortest decimal that reads back to the same number, in
  \<open>%g\<close> layout, as \<open>strconv\<close> produces it.
\<close>

datatype float64 = Float64 (repr: string)

datatype error =
    LibError string
  | Errorf string "error option"

text \<open>
  \<open>LibError\<close> is an error made by \<open>os\<close>, \<open>path/filepath\<close> or \<open>encoding/json\<close>, with
  its message. \<open>Errorf msg w\<close> is the value of \<open>fmt.Errorf\<close>: the formatted message and
  the error wrapped by \<open>%w\<close>, if the format has one.
\<close>

fun errorString :: "error \<Rightarrow> string" where
  "errorString (LibError msg) = msg"
| "errorString (Errorf msg w) = msg"

subsection \<open>The structs of parser.go\<close>

record BaseName =
  Name :: string

record BaseContract =
  BaseName :: BaseName

record IdentifierPath =
  ID :: int
  Name :: string
  NameLocations :: "string list"
  NodeType :: string
  ReferencedDeclaration :: int
  Src :: string

record TypeDescriptions =
  TypeIdentifier :: string
  TypeString :: string

text \<open>
  \<open>json\<close> is what \<open>encoding/json\<close> stores in an \<open>interface{}\<close> field: nil, bool,
  float64, string, \<open>[]interface{}\<close> or \<open>map[string]interface{}\<close>. \<open>extractValue\<close> sends a
  map through \<open>json.Marshal\<close> and \<open>json.Unmarshal\<close> to read it as an \<open>ASTNode\<close>; both are
  library code, so \<open>JObject\<close> carries, next to the map's entries, what that round trip
  gives for this map: \<open>Some node\<close>, or \<open>None\<close> when one of the two calls returns an error.
\<close>

datatype json =
    JNull
  | JBool bool
  | JNumber float64
  | JString string
  | JArray "json list"
  | JObject "(string \<times> json) list" "ASTNode option"
and ASTNode = ASTNode
  (ID: int)
  (NodeType: string)
  (Name: string)
  (AbsolutePath: string)
  (File: string)
  (BaseContracts: "BaseContract list")
  (Members: "ASTNode list")
  (Modifiers: "ModifierInvocation list")
  (Parameters: "ParameterList option")
  (ReturnParameters: "ParameterList option")
  (Visibility: string)
  (StateMutability: string)
  (Kind: string)
  (OverloadedDeclarations: "int list")
  (BaseFunctions: "int list")
  (Overrides: "OverrideSpecifier option")
  (FunctionSelector: string)
  (StorageLocation: string)
  (Constant: bool)
  (Mutability: string)
  (StateVariable: bool)
  (Value: json)
  (TypeName: "TypeName option")
  (Literals: "string list")
  (Nodes: "ASTNode list")
  (Scope: int)
  (Operator: string)
  (SubExpression: "ASTNode option")
  (Expression: "ASTNode option")
  (Arguments: "json list")
  (HexValue: string)
  (IsConstant: bool)
  (IsLValue: bool)
  (IsPure: bool)
  (LeftExpression: "ASTNode option")
  (RightExpression: "ASTNode option")
  (Indexed: "bool option")
and ParameterList = ParameterList
  (Parameters: "ASTNode list")
and ModifierInvocation = ModifierInvocation
  (ID: int)
  (NodeType: string)
  (ModifierName: ASTNode)
  (Arguments: "ASTNode list")
  (Kind: string)
  (Src: string)
and OverrideSpecifier = OverrideSpecifier
  (ID: int)
  (NodeType: string)
  (Overrides: "ASTNode list")
  (Src: string)
and TypeName = TypeName
  (NodeType: string)
  (Name: string)
  (Path: string)
  (BaseType: "TypeName option")
  (Length: json)
  (KeyType: "TypeName option")
  (ValueType: "TypeName option")
  (TypeDescriptions: "TypeDescriptions option")
  (PathNode: "IdentifierPath option")

text \<open>
  The argument of \<open>extractValue\<close> is an \<open>interface{}\<close>. Its callers pass values decoded
  from JSON (\<open>node.Value\<close>, the elements of \<open>node.Arguments\<close>) and values of the static
  type \<open>*ASTNode\<close> (\<open>node.SubExpression\<close>, \<open>node.LeftExpression\<close>, \<open>node.RightExpression\<close>,
  \<open>node.Expression\<close>); the type switch also names \<open>int\<close>. An interface value made from a
  \<open>*ASTNode\<close> has that dynamic type even when the pointer is nil.
\<close>

datatype any =
    OfJSON json
  | OfInt int
  | OfNodePtr "ASTNode option"

record AST =
  Nodes :: "ASTNode list"

record ABIFile =
  ContractName :: string
  AST :: AST

record Import =
  AbsolutePath :: string
  File :: string
  Alias :: string

record Variable =
  Name :: string
  Type :: string
  Visibility :: string
  StateVariable :: bool
  StorageLocation :: string
  Constant :: bool
  Mutability :: string
  FunctionSelector :: string
  Value :: string

record Parameter =
  Name :: string
  Type :: string
  Indexed :: bool

record Function =
  Name :: string
  Visibility :: string
  Kind :: string
  StateMutability :: string
  Parameters :: "Parameter list"
  ReturnParameters :: "Parameter list"
  Modifiers :: "string list"
  BaseFunctions :: "int list"
  Overrides :: "string list"

record Event =
  Name :: string
  Parameters :: "Parameter list"

record Modifier =
  Name :: string
  Parameters :: "Parameter list"

record Struct =
  Name :: string
  Members :: "Variable list"

record Enum =
  Name :: string
  Values :: "string list"

record Contract =
  Name :: string
  Pragma :: string
  Imports :: "Import list"
  Inherits :: "string list"
  Constructor :: "Function option"
  Variables :: "Variable list"
  Functions :: "Function list"
  Events :: "Event list"
  Modifiers :: "Modifier list"
  Structs :: "Struct list"
  Enums :: "Enum list"
  Mappings :: "Variable list"

subsection \<open>Library functions the parser calls\<close>

text \<open>\<open>strings.Join\<close>.\<close>

fun Join :: "string list \<Rightarrow> string \<Rightarrow> string" where
  "Join [] sep = ''''"
| "Join [x] sep = x"
| "Join (x # y # ys) sep = x @ sep @ Join (y # ys) sep"

text \<open>\<open>fmt\<close>'s \<open>%v\<close> of an \<open>int\<close>: the decimal digits, with a minus sign below zero.\<close>

fun fmtNat :: "nat \<Rightarrow> string" where
  "fmtNat n =
     (if n < 10 then [''0123456789'' ! n]
      else fmtNat (n div 10) @ [''0123456789'' ! (n mod 10)])"

declare fmtNat.simps [simp del]

definition fmtInt :: "int \<Rightarrow> string" where
  "fmtInt i = (if i < 0 then CHR ''-'' # fmtNat (nat (- i)) else fmtNat (nat i))"

text \<open>
  \<open>fmt\<close>'s \<open>%v\<close> of a value decoded from JSON: a string as it is, \<open>true\<close>/\<open>false\<close>, a nil
  interface as \<open><nil>\<close>, a slice as \<open>[a b]\<close>, a map as \<open>map[k:v k:v]\<close> with the keys in
  increasing order.
\<close>

function fmtV :: "json \<Rightarrow> string" where
  "fmtV JNull = ''<nil>''"
| "fmtV (JBool b) = (if b then ''true'' else ''false'')"
| "fmtV (JNumber f) = repr f"
| "fmtV (JString s) = s"
| "fmtV (JArray xs) = ''['' @ Join (map fmtV xs) '' '' @ '']''"
| "fmtV (JObject kvs d) =
     ''map['' @ Join (map (\<lambda>kv. fst kv @ '':'' @ fmtV (snd kv)) (sort_key fst kvs)) '' '' @ '']''"
  by pat_completeness auto

termination
proof (relation "measure size")
  show "wf (measure (size :: json \<Rightarrow> nat))" by simp
next
  fix xs :: "json list" and x
  assume "x \<in> set xs"
  then have "size x \<le> size_list size xs" by (rule size_list_estimation') simp
  then show "(x, JArray xs) \<in> measure size" by simp
next
  fix kvs :: "(string \<times> json) list" and d :: "ASTNode option" and x
  assume "x \<in> set (sort_key fst kvs)"
  then have "x \<in> set kvs" by simp
  then have "size_prod (\<lambda>_. 0) size x \<le> size_list (size_prod (\<lambda>_. 0) size) kvs"
    by (rule size_list_estimation') simp
  moreover have "size (snd x) \<le> size_prod (\<lambda>_. 0) size x" by (cases x) simp
  ultimately show "(snd x, JObject kvs d) \<in> measure size" by simp
qed

text \<open>
  \<open>filepath.Ext\<close>: the suffix of the path from the last dot of its last element, empty
  when that element has no dot. \<open>extScan\<close> walks the path from its end.
\<close>

fun extScan :: "string \<Rightarrow> string \<Rightarrow> string" where
  "extScan [] acc = ''''"
| "extScan (c # rest) acc =
     (if c = CHR ''/'' then ''''
      else if c = CHR ''.'' then c # acc
      else extScan rest (c # acc))"

definition Ext :: "string \<Rightarrow> string" where
  "Ext path = extScan (rev path) []"

text \<open>
  What \<open>filepath.Walk\<close> hands to its callback at one visit, and the calls into the
  operating system and the JSON decoder: \<open>Walk\<close> lists the visits of a walk in order (the
  callback of \<open>ParseAllContracts\<close> returns nil or an error, never \<open>SkipDir\<close>, so the list
  depends on the directory tree only), \<open>ReadFile\<close> is \<open>os.ReadFile\<close>, \<open>Unmarshal\<close> is
  \<open>json.Unmarshal\<close> into an \<open>ABIFile\<close>.
\<close>

record FileInfo =
  IsDir :: bool

record WalkEntry =
  path :: string
  info :: FileInfo
  err :: "error option"

record Env =
  Walk :: "string \<Rightarrow> WalkEntry list"
  ReadFile :: "string \<Rightarrow> error + string"
  Unmarshal :: "string \<Rightarrow> error + ABIFile"

section \<open>parser.go\<close>

subsection \<open>extractTypeName\<close>

text \<open>
  The \<open>if\<close> chain is the \<open>switch\<close> on \<open>typeName.NodeType\<close>. A pointer is read (\<open>the\<close>)
  only on the right of the \<open>&&\<close> whose left side tests it against nil, as in the source.
\<close>

fun extractTypeName :: "TypeName option \<Rightarrow> string" where
  "extractTypeName None = ''''"
| "extractTypeName (Some (TypeName.TypeName nodeType nm pth baseType len keyType valueType
      typeDescriptions pathNode)) =
     (if nodeType = ''ElementaryTypeName'' then nm
      else if nodeType = ''UserDefinedTypeName'' then
        (if typeDescriptions \<noteq> None \<and> TypeString (the typeDescriptions) \<noteq> '''' then
           TypeString (the typeDescriptions)
         else if nm \<noteq> '''' then nm
         else if pathNode \<noteq> None \<and> IdentifierPath.Name (the pathNode) \<noteq> '''' then
           IdentifierPath.Name (the pathNode)
         else '''')
      else if nodeType = ''Mapping'' then
        ''mapping('' @ extractTypeName keyType @ '' => '' @ extractTypeName valueType @ '')''
      else if nodeType = ''ArrayTypeName'' then
        (if len \<noteq> JNull then extractTypeName baseType @ ''['' @ fmtV len @ '']''
         else extractTypeName baseType @ ''[]'')
      else '''')"

subsection \<open>extractValue, extractValueFromNode, extractFunctionCall\<close>

text \<open>
  The equations of \<open>extractValue\<close> follow its nil test and then its type switch; the last
  two are the \<open>default\<close> branch, which is where a \<open>[]interface{}\<close> and a \<open>*ASTNode\<close> go.
  The \<open>if\<close> chain of \<open>extractValueFromNode\<close> is the \<open>switch\<close> on \<open>node.NodeType\<close>; a
  \<open>Literal\<close> with neither value leaves the switch and reaches the final \<open>return ""\<close>.
\<close>

lemma size_Arguments: "size_list size (ASTNode.Arguments node) < size node"
  by (cases node) simp

function extractValue :: "any \<Rightarrow> string"
  and extractValueFromNode :: "ASTNode option \<Rightarrow> string"
  and extractFunctionCall :: "ASTNode option \<Rightarrow> string" where
  "extractValue (OfJSON JNull) = ''''"
| "extractValue (OfJSON (JString v)) = v"
| "extractValue (OfJSON (JNumber v)) = fmtV (JNumber v)"
| "extractValue (OfInt v) = fmtInt v"
| "extractValue (OfJSON (JBool v)) = fmtV (JBool v)"
| "extractValue (OfJSON (JObject v None)) = ''''"
| "extractValue (OfJSON (JObject v (Some node))) = extractValueFromNode (Some node)"
| "extractValue (OfJSON (JArray v)) = ''''"
| "extractValue (OfNodePtr v) = ''''"
| "extractValueFromNode None = ''''"
| "extractValueFromNode (Some node) =
     (if ASTNode.NodeType node = ''Literal'' then
        (if ASTNode.Value node \<noteq> JNull then fmtV (ASTNode.Value node)
         else if HexValue node \<noteq> '''' then HexValue node
         else '''')
      else if ASTNode.NodeType node = ''FunctionCall'' then extractFunctionCall (Some node)
      else if ASTNode.NodeType node = ''Identifier'' then ASTNode.Name node
      else if ASTNode.NodeType node = ''UnaryOperation'' then
        (let operand = extractValue (OfNodePtr (SubExpression node))
         in Operator node @ operand)
      else if ASTNode.NodeType node = ''BinaryOperation'' then
        (let left = extractValue (OfNodePtr (LeftExpression node));
             right = extractValue (OfNodePtr (RightExpression node))
         in ''('' @ left @ '' '' @ Operator node @ '' '' @ right @ '')'')
      else '''')"
| "extractFunctionCall None = ''''"
| "extractFunctionCall (Some node) =
     (if Expression node = None then ''''
      else
        (let functionName =
               (if ASTNode.NodeType (the (Expression node)) = ''Identifier''
                then ASTNode.Name (the (Expression node))
                else extractValue (OfNodePtr (Expression node)));
             args = map (\<lambda>arg. extractValue (OfJSON arg)) (ASTNode.Arguments node)
         in functionName @ ''('' @ Join args '', '' @ '')''))"
  by pat_completeness auto

termination
proof (relation "measure (\<lambda>x. case x of
          Inl a \<Rightarrow> (case a of OfJSON j \<Rightarrow> 3 * size j | _ \<Rightarrow> 0)
        | Inr (Inl n) \<Rightarrow> 3 * size_option size n + 2
        | Inr (Inr n) \<Rightarrow> 3 * size_option size n + 1)", goal_cases)
  case 1
  show ?case by simp
next
  case (8 node x xa)
  from 8 have "xa \<in> set (ASTNode.Arguments node)" by simp
  then have "size xa \<le> size_list size (ASTNode.Arguments node)"
    by (rule size_list_estimation') (rule order_refl)
  with size_Arguments [of node] show ?case by simp
qed simp_all

subsection \<open>The extractors of one node\<close>

definition ExtractPragmaDirective :: "ASTNode \<Rightarrow> string" where
  "ExtractPragmaDirective node = ''pragma '' @ Join (Literals node) '''' @ '';''"

definition ExtractImportDirective :: "ASTNode \<Rightarrow> Import" where
  "ExtractImportDirective node =
     \<lparr>Import.AbsolutePath = ASTNode.AbsolutePath node,
      Import.File = ASTNode.File node,
      Import.Alias = ASTNode.Name node\<rparr>"

definition ExtractVariable :: "ASTNode \<Rightarrow> Variable" where
  "ExtractVariable node =
     (let variable =
        \<lparr>Variable.Name = ASTNode.Name node,
         Variable.Type = extractTypeName (ASTNode.TypeName node),
         Variable.Visibility = ASTNode.Visibility node,
         Variable.StateVariable = ASTNode.StateVariable node,
         Variable.StorageLocation = ASTNode.StorageLocation node,
         Variable.Constant = ASTNode.Constant node,
         Variable.Mutability = ASTNode.Mutability node,
         Variable.FunctionSelector = ASTNode.FunctionSelector node,
         Variable.Value = ''''\<rparr>
      in if ASTNode.Value node \<noteq> JNull
         then variable\<lparr>Variable.Value := extractValue (OfJSON (ASTNode.Value node))\<rparr>
         else variable)"

definition ExtractParameter :: "ASTNode \<Rightarrow> Parameter" where
  "ExtractParameter node =
     (let param =
        \<lparr>Parameter.Name = ASTNode.Name node,
         Parameter.Type = extractTypeName (ASTNode.TypeName node),
         Parameter.Indexed = False\<rparr>
      in case ASTNode.Indexed node of
           Some b \<Rightarrow> param\<lparr>Parameter.Indexed := b\<rparr>
         | None \<Rightarrow> param\<lparr>Parameter.Indexed := False\<rparr>)"

definition ExtractModifiers :: "ASTNode \<Rightarrow> string list" where
  "ExtractModifiers node = map (\<lambda>m. ASTNode.Name (ModifierName m)) (ASTNode.Modifiers node)"

text \<open>
  The loops of the next extractors append one built element per element of a slice, in
  order, to a slice that starts empty: a \<open>map\<close> (a \<open>filter\<close> first where the body has a
  test). A nil \<open>*ParameterList\<close> or \<open>*OverrideSpecifier\<close> skips the loop.
\<close>

definition paramsOf :: "ParameterList option \<Rightarrow> Parameter list" where
  "paramsOf pl =
     (case pl of None \<Rightarrow> []
      | Some l \<Rightarrow> map ExtractParameter (ParameterList.Parameters l))"

definition ExtractFunction :: "ASTNode \<Rightarrow> Function" where
  "ExtractFunction node =
     \<lparr>Function.Name = ASTNode.Name node,
      Function.Visibility = ASTNode.Visibility node,
      Function.Kind = ASTNode.Kind node,
      Function.StateMutability = ASTNode.StateMutability node,
      Function.Parameters = paramsOf (ASTNode.Parameters node),
      Function.ReturnParameters = paramsOf (ASTNode.ReturnParameters node),
      Function.Modifiers = ExtractModifiers node,
      Function.BaseFunctions = ASTNode.BaseFunctions node,
      Function.Overrides =
        (case ASTNode.Overrides node of None \<Rightarrow> []
         | Some spec \<Rightarrow> map ASTNode.Name (OverrideSpecifier.Overrides spec))\<rparr>"

definition ExtractEvent :: "ASTNode \<Rightarrow> Event" where
  "ExtractEvent node =
     \<lparr>Event.Name = ASTNode.Name node,
      Event.Parameters = paramsOf (ASTNode.Parameters node)\<rparr>"

definition ExtractModifier :: "ASTNode \<Rightarrow> Modifier" where
  "ExtractModifier node =
     \<lparr>Modifier.Name = ASTNode.Name node,
      Modifier.Parameters = paramsOf (ASTNode.Parameters node)\<rparr>"

definition ExtractStruct :: "ASTNode \<Rightarrow> Struct" where
  "ExtractStruct node =
     \<lparr>Struct.Name = ASTNode.Name node,
      Struct.Members = map ExtractVariable (ASTNode.Members node)\<rparr>"

definition ExtractEnum :: "ASTNode \<Rightarrow> Enum" where
  "ExtractEnum node =
     \<lparr>Enum.Name = ASTNode.Name node,
      Enum.Values =
        map ASTNode.Name
          (filter (\<lambda>member. ASTNode.NodeType member = ''EnumValue'') (ASTNode.Members node))\<rparr>"

subsection \<open>ExtractContractDefinition\<close>

text \<open>
  The \<open>*Contract\<close> that the Go functions fill in place is passed in and returned.
  \<open>memberStep\<close> is the body of the loop over \<open>node.Nodes\<close>, one branch per \<open>case\<close> of its
  switch; a member of any other kind leaves the contract as it is.
\<close>

definition memberStep :: "Contract \<Rightarrow> ASTNode \<Rightarrow> Contract" where
  "memberStep contract member =
     (if ASTNode.NodeType member = ''VariableDeclaration'' then
        (let variable = ExtractVariable member
         in if ASTNode.TypeName member \<noteq> None
               \<and> TypeName.NodeType (the (ASTNode.TypeName member)) = ''Mapping''
            then contract\<lparr>Mappings := Mappings contract @ [variable]\<rparr>
            else contract\<lparr>Variables := Variables contract @ [variable]\<rparr>)
      else if ASTNode.NodeType member = ''FunctionDefinition'' then
        (let function = ExtractFunction member
         in if Function.Kind function = ''constructor''
            then contract\<lparr>Constructor := Some function\<rparr>
            else contract\<lparr>Functions := Functions contract @ [function]\<rparr>)
      else if ASTNode.NodeType member = ''EventDefinition'' then
        contract\<lparr>Events := Events contract @ [ExtractEvent member]\<rparr>
      else if ASTNode.NodeType member = ''ModifierDefinition'' then
        contract\<lparr>Contract.Modifiers := Contract.Modifiers contract @ [ExtractModifier member]\<rparr>
      else if ASTNode.NodeType member = ''StructDefinition'' then
        contract\<lparr>Structs := Structs contract @ [ExtractStruct member]\<rparr>
      else if ASTNode.NodeType member = ''EnumDefinition'' then
        contract\<lparr>Enums := Enums contract @ [ExtractEnum member]\<rparr>
      else contract)"

definition ExtractContractDefinition :: "ASTNode \<Rightarrow> Contract \<Rightarrow> Contract" where
  "ExtractContractDefinition node contract =
     foldl memberStep
       (contract\<lparr>Inherits :=
          Inherits contract @ map (\<lambda>baseContract. BaseName.Name (BaseName baseContract))
                                (BaseContracts node)\<rparr>)
       (ASTNode.Nodes node)"

subsection \<open>ExtractContractInfoFromAST\<close>

definition nodeStep :: "Contract \<Rightarrow> ASTNode \<Rightarrow> Contract" where
  "nodeStep contract node =
     (if ASTNode.NodeType node = ''PragmaDirective'' then
        contract\<lparr>Pragma := ExtractPragmaDirective node\<rparr>
      else if ASTNode.NodeType node = ''ImportDirective'' then
        contract\<lparr>Imports := Imports contract @ [ExtractImportDirective node]\<rparr>
      else if ASTNode.NodeType node = ''ContractDefinition'' then
        ExtractContractDefinition node
          (if Contract.Name contract = '''' then contract\<lparr>Contract.Name := ASTNode.Name node\<rparr>
           else contract)
      else contract)"

text \<open>The function returns its error, always nil, and the filled contract.\<close>

definition ExtractContractInfoFromAST :: "AST \<Rightarrow> Contract \<Rightarrow> error option \<times> Contract" where
  "ExtractContractInfoFromAST ast contract = (None, foldl nodeStep contract (AST.Nodes ast))"

subsection \<open>ParseContractFile\<close>

text \<open>\<open>&Contract{Name: name}\<close>: every other field has its zero value.\<close>

definition newContract :: "string \<Rightarrow> Contract" where
  "newContract name =
     \<lparr>Contract.Name = name, Pragma = '''', Imports = [], Inherits = [], Constructor = None,
      Variables = [], Functions = [], Events = [], Contract.Modifiers = [], Structs = [],
      Enums = [], Mappings = []\<rparr>"

definition ParseContractFile :: "Env \<Rightarrow> string \<Rightarrow> error + Contract" where
  "ParseContractFile env p =
     (case ReadFile env p of
        Inl e \<Rightarrow> Inl e
      | Inr data \<Rightarrow>
          (case Unmarshal env data of
             Inl e \<Rightarrow>
               Inl (Errorf (''failed to parse contract file '' @ p @ '': '' @ errorString e)
                      (Some e))
           | Inr abiFile \<Rightarrow>
               (let contract = newContract (ContractName abiFile)
                in if length (AST.Nodes (AST abiFile)) > 0 then
                     (case ExtractContractInfoFromAST (AST abiFile) contract of
                        (Some e, c) \<Rightarrow> Inl e
                      | (None, c) \<Rightarrow> Inr c)
                   else Inl (Errorf (''no AST found in file '' @ p) None))))"

subsection \<open>ParseAllContracts\<close>

text \<open>
  \<open>walkFn\<close> is the callback given to \<open>filepath.Walk\<close>: from the map built so far and one
  visit it returns an error, which ends the walk, or nil and the map. \<open>walkLoop\<close> is the
  walk over the visits; \<open>ParseAllContracts\<close> starts it from the empty map.
\<close>

definition walkFn :: "Env \<Rightarrow> (string \<rightharpoonup> Contract) \<Rightarrow> WalkEntry \<Rightarrow> error + (string \<rightharpoonup> Contract)" where
  "walkFn env contracts entry =
     (case err entry of
        Some e \<Rightarrow>
          Inl (Errorf (''error accessing file '' @ path entry @ '': '' @ errorString e) (Some e))
      | None \<Rightarrow>
          if \<not> IsDir (info entry) \<and> Ext (path entry) = ''.json'' then
            (case ParseContractFile env (path entry) of
               Inl e \<Rightarrow>
                 Inl (Errorf (''error parsing file '' @ path entry @ '': '' @ errorString e)
                        (Some e))
             | Inr contract \<Rightarrow>
                 if Contract.Name contract \<noteq> ''''
                 then Inr (contracts(Contract.Name contract \<mapsto> contract))
                 else Inr contracts)
          else Inr contracts)"

fun walkLoop :: "Env \<Rightarrow> (string \<rightharpoonup> Contract) \<Rightarrow> WalkEntry list \<Rightarrow> error + (string \<rightharpoonup> Contract)" where
  "walkLoop env contracts [] = Inr contracts"
| "walkLoop env contracts (entry # rest) =
     (case walkFn env contracts entry of
        Inl e \<Rightarrow> Inl e
      | Inr contracts' \<Rightarrow> walkLoop env contracts' rest)"

definition ParseAllContracts :: "Env \<Rightarrow> string \<Rightarrow> error + (string \<rightharpoonup> Contract)" where
  "ParseAllContracts env dataFolder =
     (case walkLoop env Map.empty (Walk env dataFolder) of
        Inl e \<Rightarrow> Inl e
      | Inr contracts \<Rightarrow> Inr contracts)"

section \<open>Parts of a document\<close>

text \<open>
  The nodes the two loops select, by the same tests as the \<open>case\<close> labels and the \<open>if\<close>s
  of the source, for stating what a whole extraction leaves in each field.
\<close>

definition contractDefinitions :: "ASTNode list \<Rightarrow> ASTNode list" where
  "contractDefinitions nodes =
     filter (\<lambda>node. ASTNode.NodeType node = ''ContractDefinition'') nodes"

definition contractMembers :: "ASTNode list \<Rightarrow> ASTNode list" where
  "contractMembers nodes = concat (map ASTNode.Nodes (contractDefinitions nodes))"

definition pragmaDirectives :: "ASTNode list \<Rightarrow> ASTNode list" where
  "pragmaDirectives nodes = filter (\<lambda>node. ASTNode.NodeType node = ''PragmaDirective'') nodes"

definition baseNames :: "ASTNode \<Rightarrow> string list" where
  "baseNames node =
     map (\<lambda>baseContract. BaseName.Name (BaseName baseContract)) (BaseContracts node)"

text \<open>The name of the first node of the list that has one, the empty string without one.\<close>

definition firstName :: "ASTNode list \<Rightarrow> string" where
  "firstName ds =
     (case filter (\<lambda>d. ASTNode.Name d \<noteq> '''') ds of [] \<Rightarrow> '''' | d # rest \<Rightarrow> ASTNode.Name d)"

definition variableDeclarations :: "ASTNode list \<Rightarrow> ASTNode list" where
  "variableDeclarations members =
     filter (\<lambda>member. ASTNode.NodeType member = ''VariableDeclaration'') members"

text \<open>The test of \<open>ExtractContractDefinition\<close> on a declaration's type subtree.\<close>

definition isMappingDeclaration :: "ASTNode \<Rightarrow> bool" where
  "isMappingDeclaration member =
     (ASTNode.TypeName member \<noteq> None
      \<and> TypeName.NodeType (the (ASTNode.TypeName member)) = ''Mapping'')"

definition functionDefinitions :: "ASTNode list \<Rightarrow> ASTNode list" where
  "functionDefinitions members =
     filter (\<lambda>member. ASTNode.NodeType member = ''FunctionDefinition'') members"

definition isConstructor :: "Function \<Rightarrow> bool" where
  "isConstructor f = (Function.Kind f = ''constructor'')"

text \<open>
  A contract with the four fields cleared that no member ever writes: two contracts
  with the same \<open>eraseHeader\<close> agree on all the others.
\<close>

definition eraseHeader :: "Contract \<Rightarrow> Contract" where
  "eraseHeader c = c\<lparr>Contract.Name := '''', Pragma := '''', Imports := [], Inherits := []\<rparr>"

text \<open>
  A visit is a document when the callback hands its path to \<open>ParseContractFile\<close>.
  \<open>callbackError\<close> is the error the callback returns at a visit, \<open>None\<close> for nil; it does
  not depend on the map built so far.
\<close>

definition isDocument :: "WalkEntry \<Rightarrow> bool" where
  "isDocument entry = (err entry = None \<and> \<not> IsDir (info entry) \<and> Ext (path entry) = ''.json'')"

definition callbackError :: "Env \<Rightarrow> WalkEntry \<Rightarrow> error option" where
  "callbackError env entry =
     (case walkFn env Map.empty entry of Inl e \<Rightarrow> Some e | Inr contracts \<Rightarrow> None)"

section \<open>Example documents\<close>

text \<open>
  Nodes with the fields an example sets and the zero value in every other field, as
  the decoder leaves a field the JSON does not have.
\<close>

definition declNode ::
  "string \<Rightarrow> string \<Rightarrow> string \<Rightarrow> TypeName option \<Rightarrow> json \<Rightarrow> string list \<Rightarrow> BaseContract list
     \<Rightarrow> ASTNode list \<Rightarrow> ASTNode" where
  "declNode nodeType nm kind typeName v literals baseContracts nodes =
     ASTNode 0 nodeType nm [] [] baseContracts [] [] None None [] [] kind [] [] None [] []
       False [] False v typeName literals nodes 0 [] None None [] [] False False False
       None None None"

definition exprNode ::
  "string \<Rightarrow> json \<Rightarrow> string \<Rightarrow> ASTNode option \<Rightarrow> ASTNode option \<Rightarrow> ASTNode option \<Rightarrow> ASTNode" where
  "exprNode nodeType v operator sub left right =
     ASTNode 0 nodeType [] [] [] [] [] [] None None [] [] [] [] [] None [] []
       False [] False v None [] [] 0 operator sub None [] [] False False False
       left right None"

definition typeNode ::
  "string \<Rightarrow> string \<Rightarrow> TypeName option \<Rightarrow> json \<Rightarrow> TypeName option \<Rightarrow> TypeName option \<Rightarrow> TypeName" where
  "typeNode nodeType nm baseType len keyType valueType =
     TypeName.TypeName nodeType nm [] baseType len keyType valueType None None"

definition pragmaNode :: "string list \<Rightarrow> ASTNode" where
  "pragmaNode literals = declNode ''PragmaDirective'' [] [] None JNull literals [] []"

definition contractNode :: "string \<Rightarrow> string list \<Rightarrow> ASTNode list \<Rightarrow> ASTNode" where
  "contractNode nm bases members =
     declNode ''ContractDefinition'' nm [] None JNull []
       (map (\<lambda>b. \<lparr>BaseName = \<lparr>BaseName.Name = b\<rparr>\<rparr>) bases) members"

definition variableNode :: "string \<Rightarrow> TypeName option \<Rightarrow> ASTNode" where
  "variableNode nm typeName = declNode ''VariableDeclaration'' nm [] typeName JNull [] [] []"

definition functionNode :: "string \<Rightarrow> string \<Rightarrow> ASTNode" where
  "functionNode nm kind = declNode ''FunctionDefinition'' nm kind None JNull [] [] []"

definition document :: "string \<Rightarrow> ASTNode list \<Rightarrow> ABIFile" where
  "document nm nodes = \<lparr>ContractName = nm, AST = \<lparr>AST.Nodes = nodes\<rparr>\<rparr>"

text \<open>
  The expression \<open>1 + 2\<close> and the array type \<open>uint256[10]\<close> as the compiler writes them:
  the operands and the length are \<open>Literal\<close> nodes. \<open>literalJSON\<close> is such a node as
  \<open>encoding/json\<close> stores it in an \<open>interface{}\<close> field, with the \<open>ASTNode\<close> it decodes to.
\<close>

definition literal :: "string \<Rightarrow> ASTNode" where
  "literal v = exprNode ''Literal'' (JString v) [] None None None"

definition literalJSON :: "string \<Rightarrow> json" where
  "literalJSON v =
     JObject [(''nodeType'', JString ''Literal''), (''value'', JString v)] (Some (literal v))"

definition onePlusTwo :: ASTNode where
  "onePlusTwo =
     exprNode ''BinaryOperation'' JNull ''+'' None (Some (literal ''1'')) (Some (literal ''2''))"

definition onePlusTwoJSON :: json where
  "onePlusTwoJSON =
     JObject [(''leftExpression'', literalJSON ''1''), (''nodeType'', JString ''BinaryOperation''),
              (''operator'', JString ''+''), (''rightExpression'', literalJSON ''2'')]
       (Some onePlusTwo)"

definition minusOne :: ASTNode where
  "minusOne = exprNode ''UnaryOperation'' JNull ''-'' (Some (literal ''1'')) None None"

definition uint256 :: TypeName where
  "uint256 = typeNode ''ElementaryTypeName'' ''uint256'' None JNull None None"

definition uint256Array10 :: TypeName where
  "uint256Array10 = typeNode ''ArrayTypeName'' [] (Some uint256) (literalJSON ''10'') None None"

definition address :: TypeName where
  "address = typeNode ''ElementaryTypeName'' ''address'' None JNull None None"

definition balancesType :: TypeName where
  "balancesType = typeNode ''Mapping'' '''' None JNull (Some address) (Some uint256)"

text \<open>
  The contract \<open>Token { mapping(address => uint256) balances; address owner; }\<close>, and
  the declarations \<open>uint256 three = 1 + 2\<close> and \<open>uint256[10] xs\<close>.
\<close>

definition tokenContract :: ASTNode where
  "tokenContract =
     contractNode ''Token'' []
       [variableNode ''balances'' (Some balancesType), variableNode ''owner'' (Some address)]"

definition threeDeclaration :: ASTNode where
  "threeDeclaration =
     declNode ''VariableDeclaration'' ''three'' '''' (Some uint256) onePlusTwoJSON [] [] []"

definition xsDeclaration :: ASTNode where
  "xsDeclaration = variableNode ''xs'' (Some uint256Array10)"

text \<open>
  A data folder in memory: the visits of its walk, and its files by path. The bytes of
  a file stand for themselves as its path, and decoding them gives the document stored
  under it.
\<close>

definition visit :: "string \<Rightarrow> WalkEntry" where
  "visit p = \<lparr>path = p, info = \<lparr>IsDir = False\<rparr>, err = None\<rparr>"

definition dirVisit :: "string \<Rightarrow> WalkEntry" where
  "dirVisit p = \<lparr>path = p, info = \<lparr>IsDir = True\<rparr>, err = None\<rparr>"

definition exampleEnv :: "WalkEntry list \<Rightarrow> (string \<times> ABIFile) list \<Rightarrow> Env" where
  "exampleEnv visits docs =
     \<lparr>Walk = (\<lambda>dataFolder. visits),
      ReadFile = (\<lambda>p. if map_of docs p = None then Inl (LibError ''no such file or directory'')
                      else Inr p),
      Unmarshal = (\<lambda>data. case map_of docs data of
                     None \<Rightarrow> Inl (LibError ''unexpected end of JSON input'')
                   | Some abiFile \<Rightarrow> Inr abiFile)\<rparr>"

definition tokenA :: ABIFile where
  "tokenA = document ''Token'' [pragmaNode [''solidity'', ''0.7.6''], contractNode ''Foo'' [] []]"

definition tokenB :: ABIFile where
  "tokenB = document ''Token''
     [pragmaNode [''solidity'', ''^'', ''0.8'', ''.0''], contractNode ''Bar'' [] []]"

definition unnamed :: ABIFile where
  "unnamed = document '''' [contractNode ''Foo'' [] [], contractNode ''Bar'' [] []]"

definition noNodes :: ABIFile where
  "noNodes = document ''Empty'' []"

definition dataFiles :: "(string \<times> ABIFile) list" where
  "dataFiles =
     [(''data/a.json'', tokenA), (''data/b.json'', tokenB), (''data/u.json'', unnamed),
      (''data/empty.json'', noNodes)]"

definition twoTokens :: Env where
  "twoTokens =
     exampleEnv
       [dirVisit ''data'', visit ''data/a.json'', visit ''data/b.json'', visit ''data/u.json'']
       dataFiles"

definition oneBroken :: Env where
  "oneBroken =
     exampleEnv
       [dirVisit ''data'', visit ''data/a.json'', visit ''data/empty.json'', visit ''data/b.json'']
       dataFiles"

text \<open>A document with two contract definitions, and one with two constructors.\<close>

definition twoContracts :: AST where
  "twoContracts =
     \<lparr>AST.Nodes = [contractNode ''A'' [] [],
                   contractNode ''B'' [''Base''] [variableNode ''x'' (Some uint256)]]\<rparr>"

definition firstContractOnly :: AST where
  "firstContractOnly = \<lparr>AST.Nodes = [contractNode ''A'' [] []]\<rparr>"

definition twoConstructors :: AST where
  "twoConstructors =
     \<lparr>AST.Nodes = [contractNode ''Foo'' []
        [functionNode ''first'' ''constructor'', functionNode ''run'' ''function'',
         functionNode ''second'' ''constructor'']]\<rparr>"

definition twoPragmas :: AST where
  "twoPragmas =
     \<lparr>AST.Nodes = [pragmaNode [''solidity'', ''0.7.6''],
                   pragmaNode [''solidity'', ''^'', ''0.8'', ''.0''],
                   contractNode ''Foo'' [] []]\<rparr>"

section \<open>What one extraction leaves in each field\<close>

text \<open>The library functions at a few arguments.\<close>

lemma library_examples:
  "Ext ''data/a.json'' = ''.json''"
  "Ext ''data.d/file'' = ''''"
  "Ext ''a.tar.gz'' = ''.gz''"
  "Join [''a'', ''b'', ''c''] '', '' = ''a, b, c''"
  "fmtV (JArray [JString ''a'', JNull, JBool True]) = ''[a <nil> true]''"
  "fmtV (JObject [(''b'', JString ''x''), (''a'', JArray [])] None) = ''map[a:[] b:x]''"
  "fmtInt (- 7) = ''-7''"
  "fmtInt 42 = ''42''"
  by (simp_all add: Ext_def fmtInt_def fmtNat.simps)

lemma Join_no_sep: "Join xs '''' = concat xs"
proof (induction xs)
  case Nil
  show ?case by simp
next
  case (Cons x xs)
  then show ?case by (cases xs) simp_all
qed

subsection \<open>The loop over the members\<close>

lemma memberStep_frame:
  "Contract.Name (memberStep c m) = Contract.Name c"
  "Pragma (memberStep c m) = Pragma c"
  "Imports (memberStep c m) = Imports c"
  "Inherits (memberStep c m) = Inherits c"
  by (simp_all add: memberStep_def Let_def)

lemma foldl_memberStep_frame:
  "Contract.Name (foldl memberStep c ms) = Contract.Name c"
  "Pragma (foldl memberStep c ms) = Pragma c"
  "Imports (foldl memberStep c ms) = Imports c"
  "Inherits (foldl memberStep c ms) = Inherits c"
  by (induction ms arbitrary: c) (simp_all add: memberStep_frame)

lemma Variables_memberStep:
  "Variables (memberStep c m) =
     Variables c @ (if ASTNode.NodeType m = ''VariableDeclaration'' \<and> \<not> isMappingDeclaration m
                    then [ExtractVariable m] else [])"
  by (simp add: memberStep_def Let_def isMappingDeclaration_def)

lemma Mappings_memberStep:
  "Mappings (memberStep c m) =
     Mappings c @ (if ASTNode.NodeType m = ''VariableDeclaration'' \<and> isMappingDeclaration m
                   then [ExtractVariable m] else [])"
  by (simp add: memberStep_def Let_def isMappingDeclaration_def)

lemma Functions_memberStep:
  "Functions (memberStep c m) =
     Functions c @ (if ASTNode.NodeType m = ''FunctionDefinition'' \<and> \<not> isConstructor (ExtractFunction m)
                    then [ExtractFunction m] else [])"
  by (simp add: memberStep_def Let_def isConstructor_def)

lemma Constructor_memberStep:
  "Constructor (memberStep c m) =
     (if ASTNode.NodeType m = ''FunctionDefinition'' \<and> isConstructor (ExtractFunction m)
      then Some (ExtractFunction m) else Constructor c)"
  by (simp add: memberStep_def Let_def isConstructor_def)

lemma Variables_foldl_memberStep:
  "Variables (foldl memberStep c ms) =
     Variables c
       @ map ExtractVariable (filter (\<lambda>m. \<not> isMappingDeclaration m) (variableDeclarations ms))"
  by (induction ms arbitrary: c) (simp_all add: Variables_memberStep variableDeclarations_def)

lemma Mappings_foldl_memberStep:
  "Mappings (foldl memberStep c ms) =
     Mappings c @ map ExtractVariable (filter isMappingDeclaration (variableDeclarations ms))"
  by (induction ms arbitrary: c) (simp_all add: Mappings_memberStep variableDeclarations_def)

lemma Functions_foldl_memberStep:
  "Functions (foldl memberStep c ms) =
     Functions c
       @ filter (\<lambda>f. \<not> isConstructor f) (map ExtractFunction (functionDefinitions ms))"
  by (induction ms arbitrary: c) (simp_all add: Functions_memberStep functionDefinitions_def)

lemma Constructor_foldl_memberStep:
  "Constructor (foldl memberStep c ms) =
     (if filter isConstructor (map ExtractFunction (functionDefinitions ms)) = []
      then Constructor c
      else Some (last (filter isConstructor (map ExtractFunction (functionDefinitions ms)))))"
  by (induction ms rule: rev_induct) (simp_all add: Constructor_memberStep functionDefinitions_def)

lemma Kind_ExtractFunction: "Function.Kind (ExtractFunction node) = ASTNode.Kind node"
  by (simp add: ExtractFunction_def)

subsection \<open>The loop over the top-level nodes\<close>

lemma eraseHeader_memberStep: "eraseHeader (memberStep c m) = memberStep (eraseHeader c) m"
  by (simp add: memberStep_def eraseHeader_def Let_def)

lemma eraseHeader_foldl_memberStep:
  "eraseHeader (foldl memberStep c ms) = foldl memberStep (eraseHeader c) ms"
  by (induction ms arbitrary: c) (simp_all add: eraseHeader_memberStep)

lemma eraseHeader_nodeStep:
  "eraseHeader (nodeStep c x) =
     foldl memberStep (eraseHeader c)
       (if ASTNode.NodeType x = ''ContractDefinition'' then ASTNode.Nodes x else [])"
proof -
  have upd: "eraseHeader (c'\<lparr>Inherits := h\<rparr>) = eraseHeader c'"
    "eraseHeader (c'\<lparr>Contract.Name := n\<rparr>) = eraseHeader c'"
    "eraseHeader (c'\<lparr>Pragma := p\<rparr>) = eraseHeader c'"
    "eraseHeader (c'\<lparr>Imports := i\<rparr>) = eraseHeader c'" for c' h n p i
    by (simp_all add: eraseHeader_def)
  show ?thesis
    by (simp add: nodeStep_def ExtractContractDefinition_def eraseHeader_foldl_memberStep upd)
qed

lemma contractMembers_Cons:
  "contractMembers (x # ns) =
     (if ASTNode.NodeType x = ''ContractDefinition'' then ASTNode.Nodes x else [])
       @ contractMembers ns"
  by (simp add: contractMembers_def contractDefinitions_def)

lemma eraseHeader_foldl_nodeStep:
  "eraseHeader (foldl nodeStep c ns) = foldl memberStep (eraseHeader c) (contractMembers ns)"
proof (induction ns arbitrary: c)
  case Nil
  show ?case by (simp add: contractMembers_def contractDefinitions_def)
next
  case (Cons x ns)
  show ?case
    by (simp only: foldl_Cons Cons.IH eraseHeader_nodeStep contractMembers_Cons foldl_append)
qed

lemma members_of_document:
  "eraseHeader (foldl nodeStep c ns) = eraseHeader (foldl memberStep c (contractMembers ns))"
  by (simp add: eraseHeader_foldl_nodeStep eraseHeader_foldl_memberStep)

lemma eraseHeader_fields:
  "Variables (eraseHeader c) = Variables c"
  "Mappings (eraseHeader c) = Mappings c"
  "Functions (eraseHeader c) = Functions c"
  "Constructor (eraseHeader c) = Constructor c"
  "Events (eraseHeader c) = Events c"
  "Contract.Modifiers (eraseHeader c) = Contract.Modifiers c"
  "Structs (eraseHeader c) = Structs c"
  "Enums (eraseHeader c) = Enums c"
  by (simp_all add: eraseHeader_def)

lemma member_fields_of_document:
  "Variables (foldl nodeStep c ns) = Variables (foldl memberStep c (contractMembers ns))"
  "Mappings (foldl nodeStep c ns) = Mappings (foldl memberStep c (contractMembers ns))"
  "Functions (foldl nodeStep c ns) = Functions (foldl memberStep c (contractMembers ns))"
  "Constructor (foldl nodeStep c ns) = Constructor (foldl memberStep c (contractMembers ns))"
  "Events (foldl nodeStep c ns) = Events (foldl memberStep c (contractMembers ns))"
  "Contract.Modifiers (foldl nodeStep c ns) =
     Contract.Modifiers (foldl memberStep c (contractMembers ns))"
  "Structs (foldl nodeStep c ns) = Structs (foldl memberStep c (contractMembers ns))"
  "Enums (foldl nodeStep c ns) = Enums (foldl memberStep c (contractMembers ns))"
  using members_of_document [of c ns] eraseHeader_fields
  by metis+

lemma Name_nodeStep:
  "Contract.Name (nodeStep c x) =
     (if ASTNode.NodeType x = ''ContractDefinition'' \<and> Contract.Name c = '''' then ASTNode.Name x
      else Contract.Name c)"
  by (simp add: nodeStep_def ExtractContractDefinition_def foldl_memberStep_frame)

lemma firstName_Cons:
  "firstName (x # ds) = (if ASTNode.Name x \<noteq> '''' then ASTNode.Name x else firstName ds)"
  by (simp add: firstName_def)

lemma Name_foldl_nodeStep:
  "Contract.Name (foldl nodeStep c ns) =
     (if Contract.Name c \<noteq> '''' then Contract.Name c else firstName (contractDefinitions ns))"
proof (induction ns arbitrary: c)
  case Nil
  show ?case by (simp add: firstName_def contractDefinitions_def)
next
  case (Cons x ns)
  show ?case
    by (simp add: Cons.IH Name_nodeStep contractDefinitions_def firstName_Cons)
qed

lemma Inherits_nodeStep:
  "Inherits (nodeStep c x) =
     Inherits c @ (if ASTNode.NodeType x = ''ContractDefinition'' then baseNames x else [])"
  by (simp add: nodeStep_def ExtractContractDefinition_def foldl_memberStep_frame baseNames_def)

lemma Inherits_foldl_nodeStep:
  "Inherits (foldl nodeStep c ns) = Inherits c @ concat (map baseNames (contractDefinitions ns))"
proof (induction ns arbitrary: c)
  case Nil
  show ?case by (simp add: contractDefinitions_def)
next
  case (Cons x ns)
  show ?case
    by (simp add: Cons.IH Inherits_nodeStep contractDefinitions_def)
qed

lemma Pragma_nodeStep:
  "Pragma (nodeStep c x) =
     (if ASTNode.NodeType x = ''PragmaDirective'' then ExtractPragmaDirective x else Pragma c)"
  by (simp add: nodeStep_def ExtractContractDefinition_def foldl_memberStep_frame)

lemma Pragma_foldl_nodeStep:
  "Pragma (foldl nodeStep c ns) =
     (if pragmaDirectives ns = [] then Pragma c
      else ExtractPragmaDirective (last (pragmaDirectives ns)))"
  by (induction ns rule: rev_induct) (simp_all add: Pragma_nodeStep pragmaDirectives_def)

subsection \<open>One file, and the walk\<close>

lemma ParseContractFile_decoded:
  assumes "ReadFile env p = Inr data" and "Unmarshal env data = Inr abiFile"
  shows "ParseContractFile env p =
           (if AST.Nodes (AST abiFile) = [] then Inl (Errorf (''no AST found in file '' @ p) None)
            else Inr (foldl nodeStep (newContract (ContractName abiFile))
                        (AST.Nodes (AST abiFile))))"
  using assms by (simp add: ParseContractFile_def ExtractContractInfoFromAST_def)

lemma walkFn_error:
  "walkFn env contracts entry = Inl e \<longleftrightarrow> callbackError env entry = Some e"
  by (simp add: walkFn_def callbackError_def split: option.splits sum.splits)

lemma walkFn_no_error:
  "(\<exists>contracts'. walkFn env contracts entry = Inr contracts') \<longleftrightarrow> callbackError env entry = None"
  by (simp add: walkFn_def callbackError_def split: option.splits sum.splits)

lemma walkFn_document:
  assumes "isDocument entry"
  shows "walkFn env contracts entry =
           (case ParseContractFile env (path entry) of
              Inl e \<Rightarrow>
                Inl (Errorf (''error parsing file '' @ path entry @ '': '' @ errorString e) (Some e))
            | Inr contract \<Rightarrow>
                if Contract.Name contract \<noteq> ''''
                then Inr (contracts(Contract.Name contract \<mapsto> contract))
                else Inr contracts)"
  using assms by (simp add: walkFn_def isDocument_def)

lemma walkFn_other:
  assumes "\<not> isDocument entry" and "walkFn env contracts entry = Inr contracts'"
  shows "contracts' = contracts"
  using assms by (auto simp add: walkFn_def isDocument_def split: option.splits if_splits)

lemma walkLoop_append:
  "walkLoop env contracts (xs @ ys) =
     (case walkLoop env contracts xs of
        Inl e \<Rightarrow> Inl e
      | Inr contracts' \<Rightarrow> walkLoop env contracts' ys)"
  by (induction xs arbitrary: contracts) (simp_all split: sum.splits)

lemma walkLoop_keeps:
  assumes "walkLoop env contracts post = Inr contracts'"
    and "\<forall>e\<in>set post. isDocument e \<longrightarrow>
           (\<forall>c. ParseContractFile env (path e) = Inr c \<longrightarrow> Contract.Name c \<noteq> n)"
  shows "contracts' n = contracts n"
  using assms
proof (induction post arbitrary: contracts)
  case Nil
  then show ?case by simp
next
  case (Cons e post)
  from Cons.prems(1) obtain mid where mid: "walkFn env contracts e = Inr mid"
    and rest: "walkLoop env mid post = Inr contracts'"
    by (auto split: sum.splits)
  have "mid n = contracts n"
  proof (cases "isDocument e")
    case True
    with mid Cons.prems(2) show ?thesis
      by (auto simp add: walkFn_document split: sum.splits if_splits)
  next
    case False
    then show ?thesis using walkFn_other [OF _ mid] by simp
  qed
  moreover have "contracts' n = mid n"
    using Cons.IH [OF rest] Cons.prems(2) by simp
  ultimately show ?case by simp
qed

lemma walkLoop_passes:
  assumes "\<forall>x\<in>set pre. callbackError env x = None"
  shows "\<exists>contracts'. walkLoop env contracts pre = Inr contracts'"
  using assms
proof (induction pre arbitrary: contracts)
  case Nil
  show ?case by simp
next
  case (Cons x pre)
  then obtain mid where "walkFn env contracts x = Inr mid"
    using walkFn_no_error [of env contracts x] by auto
  with Cons show ?case by simp
qed

lemma walkLoop_fails:
  assumes "e \<in> set es" and "callbackError env e \<noteq> None"
  shows "\<exists>er. walkLoop env contracts es = Inl er"
  using assms
proof (induction es arbitrary: contracts)
  case Nil
  then show ?case by simp
next
  case (Cons x es)
  show ?case
  proof (cases "walkFn env contracts x")
    case (Inl er)
    then show ?thesis by simp
  next
    case (Inr mid)
    then have "callbackError env x = None"
      using walkFn_no_error [of env contracts x] by auto
    with Cons.prems have "e \<in> set es" by auto
    with Cons.IH [OF _ Cons.prems(2)] Inr show ?thesis by simp
  qed
qed

subsection \<open>The example folder\<close>

lemma exampleEnv_sel:
  "Walk (exampleEnv vs docs) d = vs"
  "ReadFile (exampleEnv vs docs) p =
     (if map_of docs p = None then Inl (LibError ''no such file or directory'') else Inr p)"
  "Unmarshal (exampleEnv vs docs) data =
     (case map_of docs data of
        None \<Rightarrow> Inl (LibError ''unexpected end of JSON input'')
      | Some abiFile \<Rightarrow> Inr abiFile)"
  by (simp_all add: exampleEnv_def)

lemma dataFiles_lookup:
  "map_of dataFiles ''data/a.json'' = Some tokenA"
  "map_of dataFiles ''data/b.json'' = Some tokenB"
  "map_of dataFiles ''data/u.json'' = Some unnamed"
  "map_of dataFiles ''data/empty.json'' = Some noNodes"
  by (simp_all add: dataFiles_def)

lemma visit_isDocument:
  "isDocument (visit ''data/a.json'')"
  "isDocument (visit ''data/b.json'')"
  "isDocument (visit ''data/empty.json'')"
  "isDocument (visit ''data/u.json'')"
  by (simp_all add: isDocument_def visit_def Ext_def)

lemma walkFn_dirVisit: "walkFn env contracts (dirVisit p) = Inr contracts"
  by (simp add: walkFn_def dirVisit_def)

lemma example_nodes:
  "AST.Nodes (AST tokenA) = [pragmaNode [''solidity'', ''0.7.6''], contractNode ''Foo'' [] []]"
  "AST.Nodes (AST tokenB) =
     [pragmaNode [''solidity'', ''^'', ''0.8'', ''.0''], contractNode ''Bar'' [] []]"
  "AST.Nodes (AST unnamed) = [contractNode ''Foo'' [] [], contractNode ''Bar'' [] []]"
  "AST.Nodes (AST noNodes) = []"
  "ContractName tokenA = ''Token''"
  "ContractName tokenB = ''Token''"
  "ContractName unnamed = ''''"
  by (simp_all add: tokenA_def tokenB_def unnamed_def noNodes_def document_def)

lemma example_node_sel:
  "ASTNode.NodeType (pragmaNode ls) = ''PragmaDirective''"
  "Literals (pragmaNode ls) = ls"
  "ASTNode.NodeType (contractNode nm bs ms) = ''ContractDefinition''"
  "ASTNode.Name (contractNode nm bs ms) = nm"
  "ASTNode.Nodes (contractNode nm bs ms) = ms"
  "baseNames (contractNode nm bs ms) = bs"
  "ASTNode.NodeType (variableNode nm ty) = ''VariableDeclaration''"
  "ASTNode.TypeName (variableNode nm ty) = ty"
  "ASTNode.NodeType (functionNode nm k) = ''FunctionDefinition''"
  "ASTNode.Kind (functionNode nm k) = k"
  "ASTNode.Name (functionNode nm k) = nm"
  by (simp_all add: pragmaNode_def contractNode_def variableNode_def functionNode_def
        declNode_def baseNames_def comp_def)

lemma example_loads:
  "ParseContractFile (exampleEnv vs dataFiles) (path (visit ''data/a.json'')) =
     Inr (foldl nodeStep (newContract ''Token'') (AST.Nodes (AST tokenA)))"
  "ParseContractFile (exampleEnv vs dataFiles) (path (visit ''data/b.json'')) =
     Inr (foldl nodeStep (newContract ''Token'') (AST.Nodes (AST tokenB)))"
  "ParseContractFile (exampleEnv vs dataFiles) (path (visit ''data/u.json'')) =
     Inr (foldl nodeStep (newContract '''') (AST.Nodes (AST unnamed)))"
  "ParseContractFile (exampleEnv vs dataFiles) (path (visit ''data/empty.json'')) =
     Inl (Errorf ''no AST found in file data/empty.json'' None)"
proof -
  show "ParseContractFile (exampleEnv vs dataFiles) (path (visit ''data/a.json'')) =
     Inr (foldl nodeStep (newContract ''Token'') (AST.Nodes (AST tokenA)))"
    by (simp add: ParseContractFile_decoded [where data = "''data/a.json''" and abiFile = tokenA]
          exampleEnv_sel dataFiles_lookup example_nodes visit_def)
  show "ParseContractFile (exampleEnv vs dataFiles) (path (visit ''data/b.json'')) =
     Inr (foldl nodeStep (newContract ''Token'') (AST.Nodes (AST tokenB)))"
    by (simp add: ParseContractFile_decoded [where data = "''data/b.json''" and abiFile = tokenB]
          exampleEnv_sel dataFiles_lookup example_nodes visit_def)
  show "ParseContractFile (exampleEnv vs dataFiles) (path (visit ''data/u.json'')) =
     Inr (foldl nodeStep (newContract '''') (AST.Nodes (AST unnamed)))"
    by (simp add: ParseContractFile_decoded [where data = "''data/u.json''" and abiFile = unnamed]
          exampleEnv_sel dataFiles_lookup example_nodes visit_def)
  show "ParseContractFile (exampleEnv vs dataFiles) (path (visit ''data/empty.json'')) =
     Inl (Errorf ''no AST found in file data/empty.json'' None)"
    by (simp add: ParseContractFile_decoded [where data = "''data/empty.json''" and abiFile = noNodes]
          exampleEnv_sel dataFiles_lookup example_nodes visit_def)
qed

lemma example_names:
  "Contract.Name (foldl nodeStep (newContract ''Token'') ns) = ''Token''"
  "Contract.Name (foldl nodeStep (newContract '''') (AST.Nodes (AST unnamed))) = ''Foo''"
  by (simp_all only: Name_foldl_nodeStep)
     (simp_all add: newContract_def example_nodes contractDefinitions_def firstName_def
        example_node_sel)

section \<open>The claims\<close>

subsection \<open>C1: several contract definitions in one document\<close>

text \<open>
  C1, as amended. \<open>ExtractContractInfoFromAST\<close> calls \<open>ExtractContractDefinition\<close> on
  every contract-definition node, so all of them are processed into the one Contract:
  \<open>Inherits\<close> receives the base-contract names of every contract-definition node in
  document order, and every field that members fill is what the member loop leaves
  after the members of all contract-definition nodes, in document order. Only the name
  is guarded: it stays when it is already set, and otherwise is the name of the first
  contract-definition node that has a name.
\<close>

theorem C1_every_contract_definition_is_processed:
  "Inherits (snd (ExtractContractInfoFromAST ast contract)) =
     Inherits contract @ concat (map baseNames (contractDefinitions (AST.Nodes ast)))
   \<and> Variables (snd (ExtractContractInfoFromAST ast contract)) =
       Variables (foldl memberStep contract (contractMembers (AST.Nodes ast)))
   \<and> Mappings (snd (ExtractContractInfoFromAST ast contract)) =
       Mappings (foldl memberStep contract (contractMembers (AST.Nodes ast)))
   \<and> Functions (snd (ExtractContractInfoFromAST ast contract)) =
       Functions (foldl memberStep contract (contractMembers (AST.Nodes ast)))
   \<and> Constructor (snd (ExtractContractInfoFromAST ast contract)) =
       Constructor (foldl memberStep contract (contractMembers (AST.Nodes ast)))
   \<and> Events (snd (ExtractContractInfoFromAST ast contract)) =
       Events (foldl memberStep contract (contractMembers (AST.Nodes ast)))
   \<and> Contract.Modifiers (snd (ExtractContractInfoFromAST ast contract)) =
       Contract.Modifiers (foldl memberStep contract (contractMembers (AST.Nodes ast)))
   \<and> Structs (snd (ExtractContractInfoFromAST ast contract)) =
       Structs (foldl memberStep contract (contractMembers (AST.Nodes ast)))
   \<and> Enums (snd (ExtractContractInfoFromAST ast contract)) =
       Enums (foldl memberStep contract (contractMembers (AST.Nodes ast)))
   \<and> Contract.Name (snd (ExtractContractInfoFromAST ast contract)) =
       (if Contract.Name contract \<noteq> '''' then Contract.Name contract
        else firstName (contractDefinitions (AST.Nodes ast)))"
  by (simp add: ExtractContractInfoFromAST_def Inherits_foldl_nodeStep
        member_fields_of_document Name_foldl_nodeStep)

text \<open>
  C1 as the spec states it says that the base contracts and the members of a second
  contract-definition node are ignored. In the document with the contracts \<open>A\<close> and
  \<open>B is Base { uint256 x; }\<close> the second one's base contract and variable are in the
  result, which differs from the result for the document with \<open>A\<close> alone.
\<close>

theorem C1_later_definitions_ignored_counterexample:
  "Inherits (snd (ExtractContractInfoFromAST twoContracts (newContract ''''))) = [''Base'']
   \<and> Variables (snd (ExtractContractInfoFromAST twoContracts (newContract ''''))) =
       [ExtractVariable (variableNode ''x'' (Some uint256))]
   \<and> Inherits (snd (ExtractContractInfoFromAST firstContractOnly (newContract ''''))) = []
   \<and> Variables (snd (ExtractContractInfoFromAST firstContractOnly (newContract ''''))) = []
   \<and> snd (ExtractContractInfoFromAST twoContracts (newContract ''''))
       \<noteq> snd (ExtractContractInfoFromAST firstContractOnly (newContract ''''))"
proof -
  have i2: "Inherits (snd (ExtractContractInfoFromAST twoContracts (newContract ''''))) = [''Base'']"
    by (simp add: ExtractContractInfoFromAST_def Inherits_nodeStep twoContracts_def
          example_node_sel newContract_def)
  have v2: "Variables (snd (ExtractContractInfoFromAST twoContracts (newContract ''''))) =
       [ExtractVariable (variableNode ''x'' (Some uint256))]"
    by (simp only: ExtractContractInfoFromAST_def snd_conv member_fields_of_document
          Variables_foldl_memberStep)
       (simp add: twoContracts_def contractMembers_def contractDefinitions_def
          variableDeclarations_def isMappingDeclaration_def example_node_sel newContract_def
          uint256_def typeNode_def)
  have i1: "Inherits (snd (ExtractContractInfoFromAST firstContractOnly (newContract ''''))) = []"
    by (simp add: ExtractContractInfoFromAST_def Inherits_nodeStep firstContractOnly_def
          example_node_sel newContract_def)
  have v1: "Variables (snd (ExtractContractInfoFromAST firstContractOnly (newContract ''''))) = []"
    by (simp only: ExtractContractInfoFromAST_def snd_conv member_fields_of_document
          Variables_foldl_memberStep)
       (simp add: firstContractOnly_def contractMembers_def contractDefinitions_def
          variableDeclarations_def example_node_sel newContract_def)
  from i1 i2 have "snd (ExtractContractInfoFromAST twoContracts (newContract ''''))
       \<noteq> snd (ExtractContractInfoFromAST firstContractOnly (newContract ''''))"
    by auto
  with i2 v2 i1 v1 show ?thesis by simp
qed

subsection \<open>C2: binary and unary operations\<close>

text \<open>
  \<open>extractValueFromNode\<close> renders a sub-expression with \<open>extractValue\<close>, whose type switch
  has no case for the \<open>*ASTNode\<close> it is given there: the call takes the \<open>default\<close> branch
  and returns the empty string, for every operand.
\<close>

lemma BinaryOperation_value:
  assumes "ASTNode.NodeType node = ''BinaryOperation''"
  shows "extractValueFromNode (Some node) = ''( '' @ Operator node @ '' )''"
  using assms by simp

lemma UnaryOperation_value:
  assumes "ASTNode.NodeType node = ''UnaryOperation''"
  shows "extractValueFromNode (Some node) = Operator node"
  using assms by simp

text \<open>
  C2 says that a binary operation renders as \<open>(LEFT OP RIGHT)\<close> with both sides rendered
  recursively, and a unary operation as the operator followed by the rendered operand.
  The code at \<open>1 + 2\<close> and at \<open>-1\<close>, whose operands alone render as \<open>1\<close> and \<open>2\<close>: the
  results are \<open>( + )\<close>, also when the node arrives as the decoded value of a variable,
  and \<open>-\<close>; the Variable built from \<open>uint256 three = 1 + 2\<close> has the value \<open>( + )\<close>.
\<close>

theorem C2_operands_are_dropped:
  "extractValueFromNode (Some (literal ''1'')) = ''1''
   \<and> extractValueFromNode (Some (literal ''2'')) = ''2''
   \<and> extractValueFromNode (Some onePlusTwo) = ''( + )''
   \<and> extractValue (OfJSON onePlusTwoJSON) = ''( + )''
   \<and> extractValueFromNode (Some minusOne) = ''-''
   \<and> Variable.Value (ExtractVariable threeDeclaration) = ''( + )''"
  by (simp add: literal_def onePlusTwo_def onePlusTwoJSON_def minusOne_def exprNode_def
        threeDeclaration_def declNode_def ExtractVariable_def literalJSON_def)

subsection \<open>C3: variables and mappings\<close>

text \<open>
  C3. After \<open>ExtractContractDefinition\<close>, \<open>Mappings\<close> has gained the Variables built from
  exactly the variable declarations of the node whose type subtree has the mapping
  kind, and \<open>Variables\<close> those built from exactly the other variable declarations, both
  in member order: each declaration is in one of the two collections and not in the
  other, and the two together have grown by the number of variable declarations. At
  one variable declaration the loop body appends the built Variable to \<open>Mappings\<close> and
  leaves \<open>Variables\<close> as it is when the type subtree has the mapping kind, and the other
  way round when it has not.
\<close>

theorem C3_variable_or_mapping:
  "(ASTNode.NodeType member = ''VariableDeclaration'' \<longrightarrow>
      (if isMappingDeclaration member
       then Mappings (memberStep contract member) = Mappings contract @ [ExtractVariable member]
            \<and> Variables (memberStep contract member) = Variables contract
       else Variables (memberStep contract member) = Variables contract @ [ExtractVariable member]
            \<and> Mappings (memberStep contract member) = Mappings contract))
   \<and> Mappings (ExtractContractDefinition node contract) =
     Mappings contract
       @ map ExtractVariable
           (filter isMappingDeclaration (variableDeclarations (ASTNode.Nodes node)))
   \<and> Variables (ExtractContractDefinition node contract) =
     Variables contract
       @ map ExtractVariable
           (filter (\<lambda>member. \<not> isMappingDeclaration member)
              (variableDeclarations (ASTNode.Nodes node)))
   \<and> length (Mappings (ExtractContractDefinition node contract))
       + length (Variables (ExtractContractDefinition node contract)) =
     length (Mappings contract) + length (Variables contract)
       + length (variableDeclarations (ASTNode.Nodes node))"
  by (simp add: ExtractContractDefinition_def Variables_foldl_memberStep
        Mappings_foldl_memberStep sum_length_filter_compl Variables_memberStep
        Mappings_memberStep)

text \<open>
  C3 at the contract \<open>Token\<close> with the members \<open>balances\<close>, a mapping from address to
  uint256, and \<open>owner\<close>, an address: \<open>balances\<close> is in \<open>Mappings\<close> with its rendered
  type and \<open>owner\<close> is in \<open>Variables\<close>, each in that collection only.
\<close>

theorem C3_variable_or_mapping_witness:
  "map Variable.Name (Mappings (ExtractContractDefinition tokenContract (newContract ''Token''))) =
     [''balances'']
   \<and> map Variable.Type (Mappings (ExtractContractDefinition tokenContract (newContract ''Token''))) =
     [''mapping(address => uint256)'']
   \<and> map Variable.Name (Variables (ExtractContractDefinition tokenContract (newContract ''Token''))) =
     [''owner'']
   \<and> Mappings (memberStep (newContract ''Token'') (variableNode ''balances'' (Some balancesType))) =
     [ExtractVariable (variableNode ''balances'' (Some balancesType))]
   \<and> Variables (memberStep (newContract ''Token'') (variableNode ''balances'' (Some balancesType))) =
     []"
  using C3_variable_or_mapping [of "variableNode ''balances'' (Some balancesType)"
      "newContract ''Token''" tokenContract]
  by (simp add: tokenContract_def variableDeclarations_def isMappingDeclaration_def
        example_node_sel newContract_def balancesType_def address_def uint256_def typeNode_def
        ExtractVariable_def variableNode_def declNode_def)

subsection \<open>C4: the constructor slot\<close>

text \<open>
  C4. In the Contract extracted from a document, \<open>Functions\<close> holds the Functions built
  from the function definitions among the contract members whose kind is not
  \<open>constructor\<close>, so none of its elements has that kind; \<open>Constructor\<close> is the Function
  built from the last function definition of kind \<open>constructor\<close>, and nil without one.
\<close>

theorem C4_constructor_slot:
  "Functions (snd (ExtractContractInfoFromAST ast (newContract nm))) =
     filter (\<lambda>f. \<not> isConstructor f)
       (map ExtractFunction (functionDefinitions (contractMembers (AST.Nodes ast))))
   \<and> (\<forall>f \<in> set (Functions (snd (ExtractContractInfoFromAST ast (newContract nm)))).
         Function.Kind f \<noteq> ''constructor'')
   \<and> Constructor (snd (ExtractContractInfoFromAST ast (newContract nm))) =
     (if filter isConstructor
           (map ExtractFunction (functionDefinitions (contractMembers (AST.Nodes ast)))) = []
      then None
      else Some (last (filter isConstructor
           (map ExtractFunction (functionDefinitions (contractMembers (AST.Nodes ast)))))))"
  by (simp add: ExtractContractInfoFromAST_def member_fields_of_document
        Functions_foldl_memberStep Constructor_foldl_memberStep)
     (simp add: newContract_def isConstructor_def)

text \<open>
  C4 at a contract with the members constructor \<open>first\<close>, function \<open>run\<close>, constructor
  \<open>second\<close>: \<open>Functions\<close> holds \<open>run\<close> alone and the slot holds \<open>second\<close>.
\<close>

theorem C4_constructor_slot_witness:
  "Functions (snd (ExtractContractInfoFromAST twoConstructors (newContract ''''))) =
     [ExtractFunction (functionNode ''run'' ''function'')]
   \<and> Constructor (snd (ExtractContractInfoFromAST twoConstructors (newContract ''''))) =
     Some (ExtractFunction (functionNode ''second'' ''constructor''))"
  using C4_constructor_slot [of twoConstructors "''''"]
  by (simp add: twoConstructors_def contractMembers_def contractDefinitions_def
        functionDefinitions_def isConstructor_def Kind_ExtractFunction example_node_sel)

subsection \<open>C5: a document without nodes\<close>

text \<open>
  C5. For a file that is read and decoded, \<open>ParseContractFile\<close> returns the error
  \<open>no AST found in file\<close> followed by the path, and no Contract, when the decoded
  document has no top-level node; with at least one node it returns a Contract, so not
  that error.
\<close>

theorem C5_missing_ast:
  assumes "ReadFile env p = Inr data" and "Unmarshal env data = Inr abiFile"
  shows "(AST.Nodes (AST abiFile) = []
            \<longrightarrow> ParseContractFile env p = Inl (Errorf (''no AST found in file '' @ p) None))
         \<and> (AST.Nodes (AST abiFile) \<noteq> []
            \<longrightarrow> (\<exists>contract. ParseContractFile env p = Inr contract))"
  using assms by (simp add: ParseContractFile_decoded)

text \<open>C5 at the file without nodes and at a file with two nodes of the example folder.\<close>

theorem C5_missing_ast_witness:
  "ParseContractFile twoTokens ''data/empty.json'' =
     Inl (Errorf ''no AST found in file data/empty.json'' None)
   \<and> (\<exists>contract. ParseContractFile twoTokens ''data/a.json'' = Inr contract)"
proof -
  have r1: "ReadFile twoTokens ''data/empty.json'' = Inr ''data/empty.json''"
    and u1: "Unmarshal twoTokens ''data/empty.json'' = Inr noNodes"
    and r2: "ReadFile twoTokens ''data/a.json'' = Inr ''data/a.json''"
    and u2: "Unmarshal twoTokens ''data/a.json'' = Inr tokenA"
    by (simp_all add: twoTokens_def exampleEnv_sel dataFiles_lookup)
  from C5_missing_ast [OF r1 u1] C5_missing_ast [OF r2 u2]
  show ?thesis by (simp add: example_nodes)
qed

subsection \<open>C6: the type renderer\<close>

text \<open>
  What the claim says holds for a nil type, a kind outside the four, a mapping, an
  array without length and an array whose length is a JSON string.
\<close>

lemma extractTypeName_Mapping:
  assumes "TypeName.NodeType t = ''Mapping''"
  shows "extractTypeName (Some t) =
           ''mapping('' @ extractTypeName (KeyType t) @ '' => '' @ extractTypeName (ValueType t) @ '')''"
  using assms by (cases t) simp

lemma extractTypeName_ArrayTypeName:
  assumes "TypeName.NodeType t = ''ArrayTypeName''"
  shows "extractTypeName (Some t) =
           (if Length t = JNull then extractTypeName (BaseType t) @ ''[]''
            else extractTypeName (BaseType t) @ ''['' @ fmtV (Length t) @ '']'')"
  using assms by (cases t) simp

lemma extractTypeName_other:
  assumes "TypeName.NodeType t \<noteq> ''ElementaryTypeName''"
    and "TypeName.NodeType t \<noteq> ''UserDefinedTypeName''"
    and "TypeName.NodeType t \<noteq> ''Mapping''"
    and "TypeName.NodeType t \<noteq> ''ArrayTypeName''"
  shows "extractTypeName (Some t) = ''''"
  using assms by (cases t) simp

text \<open>
  C6 says that an array type with a fixed length literal renders as \<open>T[N]\<close>. The
  compiler writes the length of \<open>uint256[10]\<close> as a \<open>Literal\<close> node, which the decoder
  stores as a map, and \<open>extractTypeName\<close> prints that map with \<open>%v\<close>; \<open>extractValue\<close>
  reads the same node as \<open>10\<close>.
\<close>

theorem C6_fixed_length_prints_the_node:
  "extractTypeName (Some uint256) = ''uint256''
   \<and> extractValue (OfJSON (literalJSON ''10'')) = ''10''
   \<and> fmtV (literalJSON ''10'') = ''map[nodeType:Literal value:10]''
   \<and> extractTypeName (Some uint256Array10) = ''uint256[map[nodeType:Literal value:10]]''
   \<and> Variable.Type (ExtractVariable xsDeclaration) = ''uint256[map[nodeType:Literal value:10]]''"
  by (simp add: uint256Array10_def uint256_def typeNode_def literalJSON_def literal_def
        exprNode_def xsDeclaration_def variableNode_def declNode_def ExtractVariable_def)

subsection \<open>C7: two documents with one name\<close>

text \<open>
  C7. When the walk visits two documents that both load into Contracts of the same
  non-empty name, and no document visited after the second loads into a Contract of
  that name, the registry that \<open>ParseAllContracts\<close> returns maps the name to the second
  one's Contract. The registry is a map, so it has one entry under the name.
\<close>

theorem C7_later_document_wins:
  assumes "Walk env dataFolder = pre @ e1 # mid @ e2 # post"
    and "isDocument e1" and "ParseContractFile env (path e1) = Inr c1"
    and "isDocument e2" and "ParseContractFile env (path e2) = Inr c2"
    and "Contract.Name c1 = n" and "Contract.Name c2 = n" and "n \<noteq> ''''"
    and "\<forall>e\<in>set post. isDocument e \<longrightarrow>
           (\<forall>c. ParseContractFile env (path e) = Inr c \<longrightarrow> Contract.Name c \<noteq> n)"
    and "ParseAllContracts env dataFolder = Inr registry"
  shows "registry n = Some c2"
proof -
  from assms(10)
  have "walkLoop env Map.empty ((pre @ e1 # mid) @ e2 # post) = Inr registry"
    by (simp add: ParseAllContracts_def assms(1) split: sum.splits)
  then obtain before where "walkLoop env Map.empty (pre @ e1 # mid) = Inr before"
    and tail: "walkLoop env before (e2 # post) = Inr registry"
    by (auto simp add: walkLoop_append split: sum.splits)
  from tail have rest: "walkLoop env (before(n \<mapsto> c2)) post = Inr registry"
    using assms(4,5,7,8) by (simp add: walkFn_document)
  have "registry n = (before(n \<mapsto> c2)) n"
    using rest assms(9) by (rule walkLoop_keeps)
  then show ?thesis by simp
qed

text \<open>
  C7 at the folder \<open>data\<close> whose walk visits the folder itself, \<open>data/a.json\<close> and
  \<open>data/b.json\<close>, both named \<open>Token\<close>, and then \<open>data/u.json\<close>, whose Contract is
  called \<open>Foo\<close>: the entry under \<open>Token\<close> is the Contract of \<open>data/b.json\<close>, with its
  pragma.
\<close>

theorem C7_later_document_wins_witness:
  "\<exists>registry c. ParseAllContracts twoTokens ''data'' = Inr registry
     \<and> registry ''Token'' = Some c
     \<and> ParseContractFile twoTokens ''data/b.json'' = Inr c
     \<and> Pragma c = ''pragma solidity^0.8.0;''"
proof -
  define ca where "ca = foldl nodeStep (newContract ''Token'') (AST.Nodes (AST tokenA))"
  define cb where "cb = foldl nodeStep (newContract ''Token'') (AST.Nodes (AST tokenB))"
  define cu where "cu = foldl nodeStep (newContract '''') (AST.Nodes (AST unnamed))"
  have pa: "ParseContractFile twoTokens (path (visit ''data/a.json'')) = Inr ca"
    and pb: "ParseContractFile twoTokens (path (visit ''data/b.json'')) = Inr cb"
    and pu: "ParseContractFile twoTokens (path (visit ''data/u.json'')) = Inr cu"
    by (simp_all add: twoTokens_def example_loads ca_def cb_def cu_def)
  have na: "Contract.Name ca = ''Token''" and nb: "Contract.Name cb = ''Token''"
    and nu: "Contract.Name cu = ''Foo''"
    by (simp_all add: ca_def cb_def cu_def example_names)
  have w: "Walk twoTokens ''data'' =
      [dirVisit ''data''] @ visit ''data/a.json'' # [] @ visit ''data/b.json'' # [visit ''data/u.json'']"
    by (simp add: twoTokens_def exampleEnv_sel)
  obtain registry where r: "ParseAllContracts twoTokens ''data'' = Inr registry"
    using pa pb pu na nb nu
    by (simp add: ParseAllContracts_def w walkFn_document visit_isDocument walkFn_dirVisit)
  have later: "\<forall>e\<in>set [visit ''data/u.json'']. isDocument e \<longrightarrow>
      (\<forall>c. ParseContractFile twoTokens (path e) = Inr c \<longrightarrow> Contract.Name c \<noteq> ''Token'')"
    using pu nu by simp
  have "registry ''Token'' = Some cb"
    by (rule C7_later_document_wins
          [OF w visit_isDocument(1) pa visit_isDocument(2) pb na nb _ later r])
       simp
  moreover have "Pragma cb = ''pragma solidity^0.8.0;''"
    by (simp add: cb_def Pragma_nodeStep example_nodes example_node_sel
          ExtractPragmaDirective_def)
  ultimately show ?thesis using r pb by (simp add: visit_def)
qed

subsection \<open>C8: one document that fails\<close>

text \<open>
  C8. When the walk visits a document whose load returns an error, \<open>ParseAllContracts\<close>
  returns an error and no map. When the callback returns nil at every visit before that
  document, the error returned is the document's error wrapped in
  \<open>error parsing file\<close> with the document's path, whatever was loaded before.
\<close>

theorem C8_all_or_nothing:
  assumes "e \<in> set (Walk env dataFolder)" and "isDocument e"
    and "ParseContractFile env (path e) = Inl er"
  shows "(\<exists>er'. ParseAllContracts env dataFolder = Inl er')
         \<and> (\<forall>pre post. Walk env dataFolder = pre @ e # post
               \<longrightarrow> (\<forall>x\<in>set pre. callbackError env x = None)
               \<longrightarrow> ParseAllContracts env dataFolder =
                     Inl (Errorf (''error parsing file '' @ path e @ '': '' @ errorString er)
                            (Some er)))"
proof -
  have fails: "\<And>contracts. walkFn env contracts e =
      Inl (Errorf (''error parsing file '' @ path e @ '': '' @ errorString er) (Some er))"
    using assms(2,3) by (simp add: walkFn_document)
  then have "callbackError env e \<noteq> None"
    using walkFn_error [of env Map.empty e] by auto
  with assms(1) obtain er' where "walkLoop env Map.empty (Walk env dataFolder) = Inl er'"
    using walkLoop_fails by blast
  then have first: "\<exists>er'. ParseAllContracts env dataFolder = Inl er'"
    by (simp add: ParseAllContracts_def)
  have second: "ParseAllContracts env dataFolder =
      Inl (Errorf (''error parsing file '' @ path e @ '': '' @ errorString er) (Some er))"
    if split: "Walk env dataFolder = pre @ e # post"
      and ok: "\<forall>x\<in>set pre. callbackError env x = None" for pre post
  proof -
    from ok obtain before where "walkLoop env Map.empty pre = Inr before"
      using walkLoop_passes by blast
    then show ?thesis
      by (simp add: ParseAllContracts_def split walkLoop_append fails)
  qed
  from first second show ?thesis by blast
qed

text \<open>
  C8 at the folder \<open>data\<close> whose walk visits \<open>data/empty.json\<close>, a document without
  nodes, after the folder itself and \<open>data/a.json\<close>, which loads, and before
  \<open>data/b.json\<close>.
\<close>

theorem C8_all_or_nothing_witness:
  "ParseAllContracts oneBroken ''data'' =
     Inl (Errorf ''error parsing file data/empty.json: no AST found in file data/empty.json''
            (Some (Errorf ''no AST found in file data/empty.json'' None)))"
proof -
  have w: "Walk oneBroken ''data'' =
      [dirVisit ''data'', visit ''data/a.json''] @ visit ''data/empty.json'' # [visit ''data/b.json'']"
    by (simp add: oneBroken_def exampleEnv_sel)
  then have mem: "visit ''data/empty.json'' \<in> set (Walk oneBroken ''data'')"
    by simp
  have bad: "ParseContractFile oneBroken (path (visit ''data/empty.json'')) =
      Inl (Errorf ''no AST found in file data/empty.json'' None)"
    by (simp add: oneBroken_def example_loads)
  have "ParseContractFile oneBroken (path (visit ''data/a.json'')) =
      Inr (foldl nodeStep (newContract ''Token'') (AST.Nodes (AST tokenA)))"
    by (simp add: oneBroken_def example_loads)
  then have ok: "\<forall>x\<in>set [dirVisit ''data'', visit ''data/a.json'']. callbackError oneBroken x = None"
    by (simp add: callbackError_def walkFn_document visit_isDocument walkFn_dirVisit)
  from C8_all_or_nothing [OF mem visit_isDocument(3) bad] w ok
  have "ParseAllContracts oneBroken ''data'' =
      Inl (Errorf (''error parsing file '' @ path (visit ''data/empty.json'') @ '': ''
                     @ errorString (Errorf ''no AST found in file data/empty.json'' None))
             (Some (Errorf ''no AST found in file data/empty.json'' None)))"
    by blast
  then show ?thesis by (simp add: visit_def)
qed

subsection \<open>C9: the pragma\<close>

text \<open>
  C9. \<open>ExtractPragmaDirective\<close> gives \<open>pragma\<close>, a space, the node's literals one after
  the other and a semicolon, which for the literals \<open>solidity\<close>, \<open>^\<close>, \<open>0.8\<close>, \<open>.0\<close> is
  \<open>pragma solidity^0.8.0;\<close>. A pragma-directive node sets \<open>Pragma\<close> to it, and after a
  whole document \<open>Pragma\<close> is the one of the last pragma-directive node (unchanged when
  the document has none).
\<close>

theorem C9_pragma:
  "ExtractPragmaDirective node = ''pragma '' @ concat (Literals node) @ '';''
   \<and> (Literals node = [''solidity'', ''^'', ''0.8'', ''.0'']
        \<longrightarrow> ExtractPragmaDirective node = ''pragma solidity^0.8.0;'')
   \<and> (ASTNode.NodeType node = ''PragmaDirective''
        \<longrightarrow> Pragma (nodeStep contract node) = ExtractPragmaDirective node)
   \<and> Pragma (snd (ExtractContractInfoFromAST ast contract)) =
       (if pragmaDirectives (AST.Nodes ast) = [] then Pragma contract
        else ExtractPragmaDirective (last (pragmaDirectives (AST.Nodes ast))))"
  by (simp add: ExtractPragmaDirective_def Join_no_sep Pragma_nodeStep
        ExtractContractInfoFromAST_def Pragma_foldl_nodeStep)

text \<open>
  C9 at the node of the spec's example, and at a document with the pragmas
  \<open>solidity 0.7.6\<close> and \<open>solidity ^0.8.0\<close> in this order.
\<close>

theorem C9_pragma_witness:
  "ExtractPragmaDirective (pragmaNode [''solidity'', ''^'', ''0.8'', ''.0'']) =
     ''pragma solidity^0.8.0;''
   \<and> Pragma (nodeStep (newContract '''') (pragmaNode [''solidity'', ''^'', ''0.8'', ''.0''])) =
     ''pragma solidity^0.8.0;''
   \<and> Pragma (snd (ExtractContractInfoFromAST twoPragmas (newContract ''''))) =
     ''pragma solidity^0.8.0;''"
  using C9_pragma [of "pragmaNode [''solidity'', ''^'', ''0.8'', ''.0'']" "newContract ''''"
      twoPragmas]
  by (simp add: twoPragmas_def pragmaDirectives_def example_node_sel)

subsection \<open>C10: the document's contract name\<close>

text \<open>
  C10. For a file that is read and decoded into a document with at least one node,
  the Contract that \<open>ParseContractFile\<close> returns has the document's contract-name field
  as its name when that field is not empty, whatever the contract-definition nodes are
  called; with an empty field the name is that of the first contract-definition node
  that has one.
\<close>

theorem C10_document_name_first:
  assumes "ReadFile env p = Inr data" and "Unmarshal env data = Inr abiFile"
    and "AST.Nodes (AST abiFile) \<noteq> []"
  shows "\<exists>contract. ParseContractFile env p = Inr contract
           \<and> (ContractName abiFile \<noteq> '''' \<longrightarrow> Contract.Name contract = ContractName abiFile)
           \<and> (ContractName abiFile = ''''
                \<longrightarrow> Contract.Name contract =
                      firstName (contractDefinitions (AST.Nodes (AST abiFile))))"
  using assms by (simp add: ParseContractFile_decoded Name_foldl_nodeStep newContract_def)

text \<open>
  C10 at \<open>data/a.json\<close>, named \<open>Token\<close> with a contract definition \<open>Foo\<close>, and at
  \<open>data/u.json\<close>, without a name and with the contract definitions \<open>Foo\<close> and \<open>Bar\<close>.
\<close>

theorem C10_document_name_first_witness:
  "(\<exists>contract. ParseContractFile twoTokens ''data/a.json'' = Inr contract
       \<and> Contract.Name contract = ''Token'')
   \<and> (\<exists>contract. ParseContractFile twoTokens ''data/u.json'' = Inr contract
       \<and> Contract.Name contract = ''Foo'')"
proof -
  have r1: "ReadFile twoTokens ''data/a.json'' = Inr ''data/a.json''"
    and u1: "Unmarshal twoTokens ''data/a.json'' = Inr tokenA"
    and r2: "ReadFile twoTokens ''data/u.json'' = Inr ''data/u.json''"
    and u2: "Unmarshal twoTokens ''data/u.json'' = Inr unnamed"
    by (simp_all add: twoTokens_def exampleEnv_sel dataFiles_lookup)
  have n1: "AST.Nodes (AST tokenA) \<noteq> []" and n2: "AST.Nodes (AST unnamed) \<noteq> []"
    by (simp_all add: example_nodes)
  from C10_document_name_first [OF r1 u1 n1] C10_document_name_first [OF r2 u2 n2]
  show ?thesis
    by (simp add: example_nodes contractDefinitions_def firstName_def example_node_sel)
qed

end
